theory Spec2Isabelle
  imports Complex_Main "HOL-Library.Char_ord" "HOL-Library.List_Lexorder" "HOL-Library.Multiset"
begin

section \<open>Data model of app.py\<close>

text \<open>
  The three SQLite tables of \<^verbatim>\<open>init_db\<close> are lists of rows in insertion (rowid) order.
  Every \<^verbatim>\<open>INTEGER\<close> column is an \<open>int\<close>, every \<^verbatim>\<open>TEXT\<close> column a \<open>string\<close>.
  A \<^verbatim>\<open>REAL\<close> column holds a finite IEEE double in the program; here it is an exact \<open>real\<close>,
  so rounding error of float arithmetic, signed zeros and overflow are outside the model.
  What float arithmetic does with a zero divisor (no exception in pandas, but an infinity or
  a NaN) is kept: see \<open>float64\<close> below.
\<close>

record student =
  student_id :: int
  roll :: string
  name :: string
  program :: string

record subject =
  subject_id :: int
  code :: string
  title :: string
  credits :: real

record mark =
  mark_id :: int
  m_student_id :: int
  m_subject_id :: int
  marks :: real
  max_marks :: real

text \<open>
  The database file: the three tables, and for each the \<^verbatim>\<open>AUTOINCREMENT\<close> counter that
  SQLite keeps in \<^verbatim>\<open>sqlite_sequence\<close> (the largest rowid the table ever held).
\<close>

record db =
  students_tbl :: "student list"
  subjects_tbl :: "subject list"
  marks_tbl :: "mark list"
  students_seq :: int
  subjects_seq :: int
  marks_seq :: int

text \<open>\<^verbatim>\<open>init_db\<close> on a missing file: three empty tables.\<close>

definition init_db :: db where
  "init_db = \<lparr>students_tbl = [], subjects_tbl = [], marks_tbl = [],
              students_seq = 0, subjects_seq = 0, marks_seq = 0\<rparr>"

text \<open>
  The rowid an \<^verbatim>\<open>INTEGER PRIMARY KEY AUTOINCREMENT\<close> column gets on insert: one more than
  the largest of the counter and the rowids now in the table.
\<close>

definition next_rowid :: "int \<Rightarrow> int list \<Rightarrow> int" where
  "next_rowid seq ids = fold max ids seq + 1"

text \<open>What the operations show through \<^verbatim>\<open>st.success\<close>, \<^verbatim>\<open>st.warning\<close> and \<^verbatim>\<open>st.error\<close>.\<close>

datatype st_msg = StSuccess string | StWarning string | StError string

section \<open>Business logic\<close>

subsection \<open>Percent values\<close>

text \<open>
  The column \<^verbatim>\<open>df['percent']\<close> is a float64 series. Dividing by a zero \<^verbatim>\<open>max_marks\<close> raises
  nothing there: the quotient is \<open>+inf\<close>, \<open>-inf\<close> or \<open>NaN\<close>, which the multiplication by 100
  keeps. A comparison \<^verbatim>\<open>p >= t\<close> with a NaN is false.
\<close>

datatype float64 = Finite real | PosInf | NegInf | NaN

fun float_ge :: "float64 \<Rightarrow> real \<Rightarrow> bool" where
  "float_ge (Finite x) t = (t \<le> x)"
| "float_ge PosInf t = True"
| "float_ge NegInf t = False"
| "float_ge NaN t = False"

definition percent_of :: "real \<Rightarrow> real \<Rightarrow> float64" where
  "percent_of m mx =
     (if mx = 0 then (if 0 < m then PosInf else if m < 0 then NegInf else NaN)
      else Finite ((m / mx) * 100))"

subsection \<open>The grade table\<close>

definition grade_from_percent :: "float64 \<Rightarrow> string \<times> real" where
  "grade_from_percent p =
     (if float_ge p 90 then (''A+'', 10.0)
      else if float_ge p 80 then (''A'', 9.0)
      else if float_ge p 70 then (''B+'', 8.0)
      else if float_ge p 60 then (''B'', 7.0)
      else if float_ge p 50 then (''C'', 6.0)
      else if float_ge p 40 then (''D'', 5.0)
      else (''F'', 0.0))"

subsection \<open>Rounding\<close>

text \<open>
  \<^verbatim>\<open>round(cgpa, 2)\<close>: the nearest multiple of 0.01, a tie going to the even neighbour
  (on exact reals, Python's and NumPy's rounding agree on this).
\<close>

definition round_half_even :: "real \<Rightarrow> int" where
  "round_half_even x =
     (let f = \<lfloor>x\<rfloor>; d = x - of_int f
      in if d < 1 / 2 then f else if 1 / 2 < d then f + 1 else if even f then f else f + 1)"

definition py_round :: "real \<Rightarrow> nat \<Rightarrow> real" where
  "py_round x n = of_int (round_half_even (x * 10 ^ n)) / 10 ^ n"

subsection \<open>The report of one student\<close>

text \<open>
  A row of the data frame \<^verbatim>\<open>df\<close>: the eight columns the query selects, then the four
  columns \<^verbatim>\<open>compute_student_report\<close> adds.
\<close>

record report_row =
  r_student_id :: int
  r_roll :: string
  r_name :: string
  r_code :: string
  r_title :: string
  r_credits :: real
  r_marks :: real
  r_max_marks :: real
  percent :: float64
  grade :: string
  grade_point :: real
  credit_gp :: real

record summary =
  s_roll :: string
  s_name :: string
  total_credits :: real
  total_credit_gp :: real
  cgpa :: real
  generated_at :: string

text \<open>
  The query: students joined with marks on \<^verbatim>\<open>student_id\<close>, joined with subjects on
  \<^verbatim>\<open>subject_id\<close>, restricted to one \<^verbatim>\<open>student_id\<close>. The result is the triples of the
  nested loops; SQLite fixes no row order for this query, and nothing below depends on it
  while \<^verbatim>\<open>student_id\<close> is a key of the students table.
\<close>

definition select_report_rows :: "db \<Rightarrow> int \<Rightarrow> (student \<times> mark \<times> subject) list" where
  "select_report_rows d sid =
     [(s, m, sub).
        s \<leftarrow> students_tbl d, student_id s = sid,
        m \<leftarrow> marks_tbl d, student_id s = m_student_id m,
        sub \<leftarrow> subjects_tbl d, m_subject_id m = subject_id sub]"

definition graded_row :: "student \<times> mark \<times> subject \<Rightarrow> report_row" where
  "graded_row t =
     (case t of (s, m, sub) \<Rightarrow>
        let p = percent_of (marks m) (max_marks m);
            g = grade_from_percent p
        in \<lparr>r_student_id = student_id s, r_roll = roll s, r_name = name s,
            r_code = code sub, r_title = title sub, r_credits = credits sub,
            r_marks = marks m, r_max_marks = max_marks m,
            percent = p, grade = fst g, grade_point = snd g,
            credit_gp = credits sub * snd g\<rparr>)"

text \<open>
  \<^verbatim>\<open>compute_student_report\<close> reads the database and the clock; both are arguments here
  (\<open>now\<close> is the text of \<^verbatim>\<open>datetime.utcnow().isoformat() + "Z"\<close>). \<open>None\<close> is the
  \<^verbatim>\<open>return None\<close> on an empty frame.
\<close>

definition compute_student_report ::
    "db \<Rightarrow> string \<Rightarrow> int \<Rightarrow> (report_row list \<times> summary) option" where
  "compute_student_report d now sid =
     (case map graded_row (select_report_rows d sid) of
        [] \<Rightarrow> None
      | r0 # rs \<Rightarrow>
          let df = r0 # rs;
              tc = sum_list (map r_credits df);
              tg = sum_list (map credit_gp df);
              c = (if 0 < tc then tg / tc else 0.0)
          in Some (df, \<lparr>s_roll = r_roll r0, s_name = r_name r0,
                         total_credits = tc, total_credit_gp = tg,
                         cgpa = py_round c 2, generated_at = now\<rparr>))"

section \<open>Data operations\<close>

text \<open>\<^verbatim>\<open>cur.fetchone()\<close>: the first row of a result, or nothing.\<close>

definition fetchone :: "'a list \<Rightarrow> 'a option" where
  "fetchone xs = (case xs of [] \<Rightarrow> None | x # _ \<Rightarrow> Some x)"

text \<open>
  Each operation returns the message it shows and the database it leaves. The insert fails
  with \<^verbatim>\<open>IntegrityError\<close> exactly when the \<^verbatim>\<open>UNIQUE\<close> column already holds the value;
  nothing is committed then.
\<close>

definition add_student :: "string \<Rightarrow> string \<Rightarrow> string \<Rightarrow> db \<Rightarrow> st_msg \<times> db" where
  "add_student r n p d =
     (if r \<in> set (map roll (students_tbl d))
      then (StWarning ''Student with this roll already exists.'', d)
      else
        let sid = next_rowid (students_seq d) (map student_id (students_tbl d))
        in (StSuccess ''Student added'',
            d\<lparr>students_tbl := students_tbl d @
                   [\<lparr>student_id = sid, roll = r, name = n, program = p\<rparr>],
              students_seq := sid\<rparr>))"

definition add_subject :: "string \<Rightarrow> string \<Rightarrow> real \<Rightarrow> db \<Rightarrow> st_msg \<times> db" where
  "add_subject c t cr d =
     (if c \<in> set (map code (subjects_tbl d))
      then (StWarning ''Subject with this code already exists.'', d)
      else
        let bid = next_rowid (subjects_seq d) (map subject_id (subjects_tbl d))
        in (StSuccess ''Subject added'',
            d\<lparr>subjects_tbl := subjects_tbl d @
                   [\<lparr>subject_id = bid, code = c, title = t, credits = cr\<rparr>],
              subjects_seq := bid\<rparr>))"

definition lookup_student :: "db \<Rightarrow> string \<Rightarrow> int option" where
  "lookup_student d r = fetchone (map student_id (filter (\<lambda>s. roll s = r) (students_tbl d)))"

definition lookup_subject :: "db \<Rightarrow> string \<Rightarrow> int option" where
  "lookup_subject d c = fetchone (map subject_id (filter (\<lambda>b. code b = c) (subjects_tbl d)))"

text \<open>The mark rows of one (student, subject) pair.\<close>

definition pair_rows :: "db \<Rightarrow> int \<Rightarrow> int \<Rightarrow> mark list" where
  "pair_rows d sid bid =
     filter (\<lambda>row. m_student_id row = sid \<and> m_subject_id row = bid) (marks_tbl d)"

definition lookup_mark :: "db \<Rightarrow> int \<Rightarrow> int \<Rightarrow> int option" where
  "lookup_mark d sid bid = fetchone (map mark_id (pair_rows d sid bid))"

definition update_marks :: "real \<Rightarrow> real \<Rightarrow> int \<Rightarrow> mark \<Rightarrow> mark" where
  "update_marks m mx e row =
     (if mark_id row = e then row\<lparr>marks := m, max_marks := mx\<rparr> else row)"

definition add_marks :: "string \<Rightarrow> string \<Rightarrow> real \<Rightarrow> real \<Rightarrow> db \<Rightarrow> st_msg \<times> db" where
  "add_marks r c m mx d =
     (case lookup_student d r of
        None \<Rightarrow> (StError ''Student roll not found.'', d)
      | Some sid \<Rightarrow>
          (case lookup_subject d c of
             None \<Rightarrow> (StError ''Subject code not found.'', d)
           | Some bid \<Rightarrow>
               (case lookup_mark d sid bid of
                  Some e \<Rightarrow>
                    (StSuccess ''Marks saved'',
                     d\<lparr>marks_tbl := map (update_marks m mx e) (marks_tbl d)\<rparr>)
                | None \<Rightarrow>
                    let mid = next_rowid (marks_seq d) (map mark_id (marks_tbl d))
                    in (StSuccess ''Marks saved'',
                        d\<lparr>marks_tbl := marks_tbl d @
                               [\<lparr>mark_id = mid, m_student_id = sid, m_subject_id = bid,
                                 marks = m, max_marks = mx\<rparr>],
                          marks_seq := mid\<rparr>))))"

text \<open>\<^verbatim>\<open>get_all_students_df\<close>: every student, ordered by roll (bytewise, as SQLite's
  default collation compares text).\<close>

definition get_all_students_df :: "db \<Rightarrow> student list" where
  "get_all_students_df d = sort_key roll (students_tbl d)"

section \<open>The dashboard's table of all students\<close>

record rank_row =
  k_roll :: string
  k_name :: string
  k_cgpa :: real
  k_total_credits :: real

text \<open>
  The loop over \<^verbatim>\<open>students['student_id'].tolist()\<close>: a student whose report is
  \<^verbatim>\<open>None\<close> adds nothing to \<^verbatim>\<open>out\<close>.
\<close>

fun cgpa_loop :: "db \<Rightarrow> string \<Rightarrow> int list \<Rightarrow> rank_row list" where
  "cgpa_loop d now [] = []"
| "cgpa_loop d now (sid # sids) =
     (case compute_student_report d now sid of
        None \<Rightarrow> cgpa_loop d now sids
      | Some (df, summ) \<Rightarrow>
          \<lparr>k_roll = s_roll summ, k_name = s_name summ, k_cgpa = cgpa summ,
            k_total_credits = total_credits summ\<rparr> # cgpa_loop d now sids)"

definition cgpa_out :: "db \<Rightarrow> string \<Rightarrow> rank_row list" where
  "cgpa_out d now = cgpa_loop d now (map student_id (get_all_students_df d))"

text \<open>
  \<^verbatim>\<open>pd.DataFrame(out).sort_values(["cgpa"], ascending=False)\<close> is called with the
  default \<^verbatim>\<open>kind='quicksort'\<close>, which pandas documents as not stable: the call promises
  the same rows in descending order of \<^verbatim>\<open>cgpa\<close> and leaves the order of rows with equal
  \<^verbatim>\<open>cgpa\<close> open. \<open>sort_values_desc out res\<close> says that \<open>res\<close> is a frame the call may
  return for \<open>out\<close>.
\<close>

definition sort_values_desc :: "rank_row list \<Rightarrow> rank_row list \<Rightarrow> bool" where
  "sort_values_desc out res =
     (mset res = mset out \<and> sorted_wrt (\<lambda>a b. k_cgpa b \<le> k_cgpa a) res)"

text \<open>A stable descending sort, one of the frames the call may return.\<close>

definition stable_desc :: "rank_row list \<Rightarrow> rank_row list" where
  "stable_desc out = rev (sort_key k_cgpa (rev out))"

text \<open>The order the specification asks of the table: ties in ascending order of roll.\<close>

definition ties_by_roll :: "rank_row list \<Rightarrow> bool" where
  "ties_by_roll res =
     sorted_wrt (\<lambda>a b. k_cgpa a = k_cgpa b \<longrightarrow> k_roll a \<le> k_roll b) res"

text \<open>A student id with a mark row whose subject exists: the students the join keeps.\<close>

definition has_graded_mark :: "db \<Rightarrow> int \<Rightarrow> bool" where
  "has_graded_mark d sid =
     (\<exists>m \<in> set (marks_tbl d).
        m_student_id m = sid \<and> m_subject_id m \<in> set (map subject_id (subjects_tbl d)))"

section \<open>Integrity of a database\<close>

text \<open>
  What the schema enforces (primary keys, \<^verbatim>\<open>UNIQUE\<close> on roll and code) and what
  \<^verbatim>\<open>add_marks\<close> maintains (one mark row for a student and subject).
\<close>

definition pair_key :: "mark \<Rightarrow> int \<times> int" where
  "pair_key row = (m_student_id row, m_subject_id row)"

definition marks_unique :: "db \<Rightarrow> bool" where
  "marks_unique d = distinct (map pair_key (marks_tbl d))"

definition wf_db :: "db \<Rightarrow> bool" where
  "wf_db d =
     (distinct (map student_id (students_tbl d)) \<and> distinct (map roll (students_tbl d)) \<and>
      distinct (map subject_id (subjects_tbl d)) \<and> distinct (map code (subjects_tbl d)) \<and>
      distinct (map mark_id (marks_tbl d)) \<and> marks_unique d)"

text \<open>The databases the three operations can build from an empty file.\<close>

datatype op =
    AddStudent string string string
  | AddSubject string string real
  | AddMarks string string real real

fun apply_op :: "op \<Rightarrow> db \<Rightarrow> db" where
  "apply_op (AddStudent r n p) d = snd (add_student r n p d)"
| "apply_op (AddSubject c t cr) d = snd (add_subject c t cr d)"
| "apply_op (AddMarks r c m mx) d = snd (add_marks r c m mx d)"

definition run_ops :: "op list \<Rightarrow> db" where
  "run_ops ops = fold apply_op ops init_db"

section \<open>Example databases\<close>

text \<open>One student with 95 of 100 in a 4-credit subject and 65 of 100 in a 3-credit one.\<close>

definition cgpa_example_db :: db where
  "cgpa_example_db =
     run_ops [AddStudent ''R1'' ''Asha'' ''BSc'',
              AddSubject ''S1'' ''Algebra'' 4, AddSubject ''S2'' ''Botany'' 3,
              AddMarks ''R1'' ''S1'' 95 100, AddMarks ''R1'' ''S2'' 65 100]"

text \<open>A student without marks.\<close>

definition nodata_db :: db where
  "nodata_db = run_ops [AddStudent ''R1'' ''Asha'' ''BSc'', AddSubject ''S1'' ''Algebra'' 4]"

text \<open>The same student after marks of 50 with \<^verbatim>\<open>max_marks\<close> 0 are saved.\<close>

definition zero_max_db :: db where
  "zero_max_db =
     run_ops [AddStudent ''R1'' ''Asha'' ''BSc'', AddSubject ''S1'' ''Algebra'' 4,
              AddMarks ''R1'' ''S1'' 50 0]"

text \<open>Two students with the same marks in the same subject.\<close>

definition tie_db :: db where
  "tie_db =
     run_ops [AddStudent ''R1'' ''Asha'' ''BSc'', AddStudent ''R2'' ''Ravi'' ''BSc'',
              AddSubject ''S1'' ''Algebra'' 4,
              AddMarks ''R1'' ''S1'' 95 100, AddMarks ''R2'' ''S1'' 95 100]"

section \<open>The grade table is total, banded and monotone\<close>

text \<open>
  Claim C2. For every real percent \<open>p\<close>, \<open>grade_from_percent\<close> returns exactly the pair of
  the band \<open>p\<close> lies in: at least 90 gives A+ and 10, from 80 up to 90 gives A and 9, from 70
  gives B+ and 8, from 60 gives B and 7, from 50 gives C and 6, from 40 gives D and 5,
  anything below 40 gives F and 0. Each band contains its lower boundary. The function is a
  total HOL function with no error value in its result type, so it is defined everywhere.
\<close>

theorem grade_from_percent_bands:
  "grade_from_percent (Finite p) =
     (if 90 \<le> p then (''A+'', 10)
      else if 80 \<le> p \<and> p < 90 then (''A'', 9)
      else if 70 \<le> p \<and> p < 80 then (''B+'', 8)
      else if 60 \<le> p \<and> p < 70 then (''B'', 7)
      else if 50 \<le> p \<and> p < 60 then (''C'', 6)
      else if 40 \<le> p \<and> p < 50 then (''D'', 5)
      else (''F'', 0))
   \<and> grade_from_percent (Finite 90) = (''A+'', 10)
   \<and> grade_from_percent (Finite 89.999) = (''A'', 9)
   \<and> grade_from_percent (Finite 80) = (''A'', 9)
   \<and> grade_from_percent (Finite 70) = (''B+'', 8)
   \<and> grade_from_percent (Finite 60) = (''B'', 7)
   \<and> grade_from_percent (Finite 50) = (''C'', 6)
   \<and> grade_from_percent (Finite 40) = (''D'', 5)"
  by (simp add: grade_from_percent_def)

text \<open>
  Claim C9. The grade point is monotone in the percent: for real percents \<open>p1 \<le> p2\<close> the
  grade point of \<open>p1\<close> is at most the grade point of \<open>p2\<close>.
\<close>

theorem grade_point_mono:
  "p1 \<le> p2 \<Longrightarrow>
     snd (grade_from_percent (Finite p1)) \<le> snd (grade_from_percent (Finite p2))"
  by (simp add: grade_from_percent_def)

theorem grade_point_mono_witness:
  "(65::real) \<le> 95 \<and>
     snd (grade_from_percent (Finite 65)) \<le> snd (grade_from_percent (Finite 95))
   \<and> snd (grade_from_percent (Finite 65)) = 7
   \<and> snd (grade_from_percent (Finite 95)) = 10"
  using grade_point_mono [of 65 95] by (simp add: grade_from_percent_def)

end
